theory Spec2Isabelle
  imports Main "HOL-Library.Sublist"
begin

section \<open>Hoy No Circula: the restriction evaluation engine of \<open>reglas_service.py\<close>\<close>

text \<open>
  The development embeds \<open>evaluar_circulacion\<close> and the tables and helpers it reads.
  Python's unbounded integers are \<open>int\<close>; Python's \<open>str\<close> is \<open>string\<close>, with every
  character outside ASCII written as its UTF-8 bytes (\<open>CHR 0xC3, CHR 0xA9\<close> is the
  e-acute of \<open>mi\<dots>rcoles\<close>); a raised \<open>ValueError\<close> is the left summand of the result.
\<close>

subsection \<open>Enumerations\<close>

text \<open>\<open>class Holograma(str, Enum)\<close> and \<open>class NivelContingencia(str, Enum)\<close>.\<close>

datatype Holograma = CERO_CERO | CERO | UNO | DOS

fun Holograma_value :: "Holograma \<Rightarrow> string" where
  "Holograma_value CERO_CERO = ''00''"
| "Holograma_value CERO = ''0''"
| "Holograma_value UNO = ''1''"
| "Holograma_value DOS = ''2''"

definition Holograma_members :: "Holograma list" where
  "Holograma_members = [CERO_CERO, CERO, UNO, DOS]"

text \<open>
  \<open>Holograma(holograma)\<close>: the lookup of an enumeration member by its value; \<open>None\<close>
  stands for the \<open>ValueError\<close> that the enumeration raises on an unknown value.
\<close>

definition Holograma_of :: "string \<Rightarrow> Holograma option" where
  "Holograma_of s = find (\<lambda>h. Holograma_value h = s) Holograma_members"

datatype NivelContingencia = NINGUNA | FASE_1 | FASE_2

fun NivelContingencia_value :: "NivelContingencia \<Rightarrow> string" where
  "NivelContingencia_value NINGUNA = ''ninguna''"
| "NivelContingencia_value FASE_1 = ''fase_1''"
| "NivelContingencia_value FASE_2 = ''fase_2''"

subsection \<open>Calendar dates\<close>

text \<open>
  \<open>datetime.date\<close>: year, month and day of the proleptic Gregorian calendar. The class
  only builds values that satisfy \<open>valid_date\<close>. \<open>isoweekday\<close> follows the standard
  library: \<open>self.toordinal() % 7 or 7\<close>, the ordinal counting 0001-01-01 as day 1.
\<close>

record date =
  year :: int
  month :: int
  day :: int

definition is_leap :: "int \<Rightarrow> bool" where
  "is_leap y = (y mod 4 = 0 \<and> (y mod 100 \<noteq> 0 \<or> y mod 400 = 0))"

definition DAYS_IN_MONTH :: "int list" where
  "DAYS_IN_MONTH = [-1, 31, 28, 31, 30, 31, 30, 31, 31, 30, 31, 30, 31]"

definition DAYS_BEFORE_MONTH :: "int list" where
  "DAYS_BEFORE_MONTH = [-1, 0, 31, 59, 90, 120, 151, 181, 212, 243, 273, 304, 334]"

definition days_in_month :: "int \<Rightarrow> int \<Rightarrow> int" where
  "days_in_month y m = (if m = 2 \<and> is_leap y then 29 else DAYS_IN_MONTH ! nat m)"

definition valid_date :: "date \<Rightarrow> bool" where
  "valid_date d = (1 \<le> year d \<and> year d \<le> 9999 \<and> 1 \<le> month d \<and> month d \<le> 12 \<and>
     1 \<le> day d \<and> day d \<le> days_in_month (year d) (month d))"

definition days_before_year :: "int \<Rightarrow> int" where
  "days_before_year yr = (let y = yr - 1 in y * 365 + y div 4 - y div 100 + y div 400)"

definition days_before_month :: "int \<Rightarrow> int \<Rightarrow> int" where
  "days_before_month y m =
     DAYS_BEFORE_MONTH ! nat m + (if 2 < m \<and> is_leap y then 1 else 0)"

definition toordinal :: "date \<Rightarrow> int" where
  "toordinal d = days_before_year (year d) + days_before_month (year d) (month d) + day d"

definition isoweekday :: "date \<Rightarrow> int" where
  "isoweekday d = (let r = toordinal d mod 7 in if r \<noteq> 0 then r else 7)"

text \<open>
  \<open>fecha.strftime("%A")\<close> in the C locale, which is the one in force since the program
  never calls \<open>setlocale\<close>: the English name of the weekday.
\<close>

definition strftime_A :: "date \<Rightarrow> string" where
  "strftime_A d =
     [''Monday'', ''Tuesday'', ''Wednesday'', ''Thursday'', ''Friday'', ''Saturday'', ''Sunday'']
       ! nat (isoweekday d - 1)"

subsection \<open>String helpers\<close>

text \<open>\<open>str(n)\<close> for an integer, as the f-strings format \<open>ultimo_digito\<close>.\<close>

definition digit_char :: "nat \<Rightarrow> char" where
  "digit_char n = char_of (48 + n)"

fun str_nat :: "nat \<Rightarrow> string" where
  "str_nat n = (if n < 10 then [digit_char n] else str_nat (n div 10) @ [digit_char (n mod 10)])"

declare str_nat.simps [simp del]

definition str_int :: "int \<Rightarrow> string" where
  "str_int i = (if i < 0 then ''-'' @ str_nat (nat (- i)) else str_nat (nat i))"

text \<open>\<open>sep.join(xs)\<close>.\<close>

fun join :: "string \<Rightarrow> string list \<Rightarrow> string" where
  "join sep [] = []"
| "join sep [x] = x"
| "join sep (x # y # ys) = x @ sep @ join sep (y # ys)"

text \<open>\<open>s.replace(a, b)\<close> for one-character \<open>a\<close> and \<open>b\<close>, and \<open>s.upper()\<close> on ASCII text.\<close>

definition replace_char :: "char \<Rightarrow> char \<Rightarrow> string \<Rightarrow> string" where
  "replace_char a b s = map (\<lambda>c. if c = a then b else c) s"

definition upper_char :: "char \<Rightarrow> char" where
  "upper_char c =
     (let n = (of_char c :: nat) in if 97 \<le> n \<and> n \<le> 122 then char_of (n - 32) else c)"

definition upper :: "string \<Rightarrow> string" where
  "upper s = map upper_char s"

text \<open>\<open>repr\<close> of a list of plain strings, as the f-string prints the accepted values.\<close>

definition repr_str_list :: "string list \<Rightarrow> string" where
  "repr_str_list xs = ''['' @ join '', '' (map (\<lambda>s. [CHR 0x27] @ s @ [CHR 0x27]) xs) @ '']''"

subsection \<open>Rule tables\<close>

text \<open>Keys are ISO weekdays (1 = Monday \<dots> 7 = Sunday), values the restricted last digits.\<close>

definition RESTRICCION_SEMANAL :: "int \<rightharpoonup> int list" where
  "RESTRICCION_SEMANAL = map_of [(1, [5, 6]), (2, [7, 8]), (3, [3, 4]), (4, [1, 2]), (5, [9, 0])]"

definition SABADO_SEMANAS_IMPARES :: "int list" where
  "SABADO_SEMANAS_IMPARES = [5, 6, 7, 8]"

definition SABADO_SEMANAS_PARES :: "int list" where
  "SABADO_SEMANAS_PARES = [0, 1, 2, 3, 4, 9]"

definition FASE2_RESTRICCION_HOLOGRAMA_0_00 :: "int \<rightharpoonup> int list" where
  "FASE2_RESTRICCION_HOLOGRAMA_0_00 =
     map_of [(1, [0, 1, 2, 3, 4]), (2, [5, 6, 7, 8, 9]), (3, [0, 1, 2, 3, 4]),
             (4, [5, 6, 7, 8, 9]), (5, [0, 1, 2, 3, 4])]"

definition NOMBRES_DIA :: "int \<rightharpoonup> string" where
  "NOMBRES_DIA = map_of
     [(1, ''lunes''), (2, ''martes''), (3, ''mi'' @ [CHR 0xC3, CHR 0xA9] @ ''rcoles''),
      (4, ''jueves''), (5, ''viernes''), (6, ''s'' @ [CHR 0xC3, CHR 0xA1] @ ''bado''),
      (7, ''domingo'')]"

text \<open>\<open>d.get(k, default)\<close> and \<open>x in range(lo, hi)\<close> for an integer \<open>x\<close>.\<close>

definition dict_get :: "('k \<rightharpoonup> 'v) \<Rightarrow> 'k \<Rightarrow> 'v \<Rightarrow> 'v" where
  "dict_get m k dflt = (case m k of None \<Rightarrow> dflt | Some v \<Rightarrow> v)"

definition in_range :: "int \<Rightarrow> int \<Rightarrow> int \<Rightarrow> bool" where
  "in_range lo hi x = (lo \<le> x \<and> x < hi)"

subsection \<open>The result record and the error\<close>

record ResultadoCirculacion =
  puede_circular :: bool
  razon :: string
  restriccion_normal :: bool
  restriccion_contingencia :: bool
  nivel_contingencia :: NivelContingencia
  dia :: string
  holograma :: string
  ultimo_digito :: int

datatype error = ValueError string

subsection \<open>Saturday rotation\<close>

definition semana_del_mes :: "date \<Rightarrow> int" where
  "semana_del_mes fecha = (day fecha - 1) div 7 + 1"

definition digitos_restringidos_sabado :: "date \<Rightarrow> int list" where
  "digitos_restringidos_sabado fecha =
     (let semana = semana_del_mes fecha
      in if semana mod 2 \<noteq> 0 then SABADO_SEMANAS_IMPARES else SABADO_SEMANAS_PARES)"

subsection \<open>The evaluation\<close>

text \<open>
  \<open>evaluar_circulacion\<close>. The first argument is the reading of \<open>date.today()\<close>, used only
  when no date is passed. The two flags are assigned in the order of the source: the weekly
  table, the Saturday rotation, Phase 2, Phase 1; then the reason is composed.
\<close>

definition evaluar_circulacion ::
  "date \<Rightarrow> int \<Rightarrow> string \<Rightarrow> NivelContingencia \<Rightarrow> date option \<Rightarrow> error + ResultadoCirculacion" where
  "evaluar_circulacion hoy digito holo nivel fecha_opt =
    (let fecha = (case fecha_opt of None \<Rightarrow> hoy | Some f \<Rightarrow> f) in
     case Holograma_of holo of
       None \<Rightarrow>
         Inl (ValueError (''Holograma inv'' @ [CHR 0xC3, CHR 0xA1] @ ''lido: '' @ [CHR 0x27] @ holo
                @ [CHR 0x27] @ ''. '' @ ''Valores aceptados: ''
                @ repr_str_list (map Holograma_value Holograma_members)))
     | Some holograma_enum \<Rightarrow>
         if \<not> in_range 0 10 digito then
           Inl (ValueError ([CHR 0xC3, CHR 0x9A] @ ''ltimo d'' @ [CHR 0xC3, CHR 0xAD]
                  @ ''gito debe ser entre 0 y 9. Se recibi'' @ [CHR 0xC3, CHR 0xB3] @ '': ''
                  @ str_int digito))
         else
           let dia_iso = isoweekday fecha;
               nombre_dia = strftime_A fecha;
               nombre_dia_es = dict_get NOMBRES_DIA dia_iso nombre_dia
           in
           if holograma_enum \<in> set [CERO_CERO, CERO] then
             if nivel = FASE_2
                \<and> digito \<in> set (dict_get FASE2_RESTRICCION_HOLOGRAMA_0_00 dia_iso []) then
               Inr \<lparr> puede_circular = False,
                     razon = ''Holograma '' @ holo
                       @ '': normalmente exento, pero en CONTINGENCIA FASE 2 ''
                       @ ''el '' @ nombre_dia_es @ '' no circulan placas terminadas en ''
                       @ str_int digito @ ''.'',
                     restriccion_normal = False,
                     restriccion_contingencia = True,
                     nivel_contingencia = nivel,
                     dia = nombre_dia_es,
                     holograma = holo,
                     ultimo_digito = digito \<rparr>
             else
               Inr \<lparr> puede_circular = True,
                     razon = ''Holograma '' @ holo @ '' est'' @ [CHR 0xC3, CHR 0xA1]
                       @ '' exento del programa Hoy No Circula.'',
                     restriccion_normal = False,
                     restriccion_contingencia = False,
                     nivel_contingencia = nivel,
                     dia = nombre_dia_es,
                     holograma = holo,
                     ultimo_digito = digito \<rparr>
           else
             let rn0 = False;
                 rc0 = False;
                 rn1 = (case RESTRICCION_SEMANAL dia_iso of
                          None \<Rightarrow> rn0
                        | Some digitos_hoy \<Rightarrow> if digito \<in> set digitos_hoy then True else rn0);
                 rn2 = (if dia_iso = 6 \<and> holograma_enum = DOS then
                          (if digito \<in> set (digitos_restringidos_sabado fecha) then True else rn1)
                        else rn1);
                 rc1 = (if nivel = FASE_2 \<and> in_range 1 6 dia_iso then True else rc0);
                 rc2 = (if nivel = FASE_1 then rn2 else rc1);
                 no_circula = (rn2 \<or> rc2);
                 razon_txt =
                   (if no_circula then
                      let causas0 = [];
                          causas1 = (if rn2 then causas0 @ [''programa Hoy No Circula regular'']
                                     else causas0);
                          causas2 = (if rc2 \<and> \<not> rn2 then
                                       causas1 @ [''contingencia ambiental ''
                                         @ upper (replace_char (CHR ''_'') (CHR '' '')
                                                    (NivelContingencia_value nivel))]
                                     else causas1)
                      in ''Placa terminada en '' @ str_int digito @ '' con holograma '' @ holo
                           @ '' '' @ ''NO CIRCULA el '' @ nombre_dia_es @ '' por: ''
                           @ join '', '' causas2 @ ''.''
                    else
                      ''Placa terminada en '' @ str_int digito @ '' con holograma '' @ holo
                        @ '' '' @ ''puede circular el '' @ nombre_dia_es @ '' sin restricciones.'')
             in Inr \<lparr> puede_circular = \<not> no_circula,
                      razon = razon_txt,
                      restriccion_normal = rn2,
                      restriccion_contingencia = rc2,
                      nivel_contingencia = nivel,
                      dia = nombre_dia_es,
                      holograma = holo,
                      ultimo_digito = digito \<rparr>)"

subsection \<open>Properties stated about the reason text\<close>

text \<open>
  A cause is cited when its phrase occurs in the reason (Python's \<open>phrase in razon\<close>). The
  regular programme is cited by the phrase the composition appends for it; a contingency is
  cited by either wording the source uses, followed by the level as the source prints it.
  A no-restriction message announces the exemption or the absence of restrictions and
  contains no wording of a prohibition.
\<close>

definition cita_programa_regular :: "string \<Rightarrow> bool" where
  "cita_programa_regular txt = sublist ''programa Hoy No Circula regular'' txt"

definition cita_contingencia :: "NivelContingencia \<Rightarrow> string \<Rightarrow> bool" where
  "cita_contingencia n txt =
     (sublist (''contingencia ambiental ''
                 @ upper (replace_char (CHR ''_'') (CHR '' '') (NivelContingencia_value n))) txt
      \<or> sublist (''CONTINGENCIA ''
                 @ upper (replace_char (CHR ''_'') (CHR '' '') (NivelContingencia_value n))) txt)"

definition mensaje_sin_restriccion :: "string \<Rightarrow> bool" where
  "mensaje_sin_restriccion txt =
     ((sublist ''sin restricciones'' txt \<or> sublist ''exento del programa Hoy No Circula'' txt)
      \<and> \<not> sublist ''NO CIRCULA'' txt \<and> \<not> sublist ''no circulan'' txt)"

section \<open>Auxiliary facts\<close>

lemma Holograma_of_values:
  "Holograma_of ''00'' = Some CERO_CERO" "Holograma_of ''0'' = Some CERO"
  "Holograma_of ''1'' = Some UNO" "Holograma_of ''2'' = Some DOS"
  by (simp_all add: Holograma_of_def Holograma_members_def)

lemma Holograma_of_None: "Holograma_of s = None \<longleftrightarrow> s \<notin> {''00'', ''0'', ''1'', ''2''}"
  by (auto simp: Holograma_of_def Holograma_members_def)

lemma isoweekday_range: "1 \<le> isoweekday d \<and> isoweekday d \<le> 7"
  unfolding isoweekday_def Let_def
  by (smt (verit) pos_mod_bound pos_mod_sign)

lemma RESTRICCION_SEMANAL_simps:
  "RESTRICCION_SEMANAL 1 = Some [5, 6]" "RESTRICCION_SEMANAL 2 = Some [7, 8]"
  "RESTRICCION_SEMANAL 3 = Some [3, 4]" "RESTRICCION_SEMANAL 4 = Some [1, 2]"
  "RESTRICCION_SEMANAL 5 = Some [9, 0]" "RESTRICCION_SEMANAL 6 = None"
  "RESTRICCION_SEMANAL 7 = None"
  by (simp_all add: RESTRICCION_SEMANAL_def)

lemma FASE2_RESTRICCION_simps:
  "FASE2_RESTRICCION_HOLOGRAMA_0_00 1 = Some [0, 1, 2, 3, 4]"
  "FASE2_RESTRICCION_HOLOGRAMA_0_00 2 = Some [5, 6, 7, 8, 9]"
  "FASE2_RESTRICCION_HOLOGRAMA_0_00 3 = Some [0, 1, 2, 3, 4]"
  "FASE2_RESTRICCION_HOLOGRAMA_0_00 4 = Some [5, 6, 7, 8, 9]"
  "FASE2_RESTRICCION_HOLOGRAMA_0_00 5 = Some [0, 1, 2, 3, 4]"
  "FASE2_RESTRICCION_HOLOGRAMA_0_00 6 = None"
  "FASE2_RESTRICCION_HOLOGRAMA_0_00 7 = None"
  by (simp_all add: FASE2_RESTRICCION_HOLOGRAMA_0_00_def)

text \<open>The three shapes of a result: the two returns of the exempt branch and the final one.\<close>

lemma evaluar_exento_restringe:
  assumes "Holograma_of h = Some he" "he = CERO_CERO \<or> he = CERO" "in_range 0 10 d"
    and "n = FASE_2"
    and "d \<in> set (dict_get FASE2_RESTRICCION_HOLOGRAMA_0_00
                    (isoweekday (case fo of None \<Rightarrow> hoy | Some f \<Rightarrow> f)) [])"
  shows "\<exists>r. evaluar_circulacion hoy d h n fo = Inr r \<and> \<not> puede_circular r
           \<and> \<not> restriccion_normal r \<and> restriccion_contingencia r
           \<and> razon r = ''Holograma '' @ h
                @ '': normalmente exento, pero en CONTINGENCIA FASE 2 el '' @ dia r
                @ '' no circulan placas terminadas en '' @ str_int d @ ''.''"
  using assms by (auto simp add: evaluar_circulacion_def Let_def split del: if_split)

lemma evaluar_exento_libre:
  assumes "Holograma_of h = Some he" "he = CERO_CERO \<or> he = CERO" "in_range 0 10 d"
    and "\<not> (n = FASE_2 \<and> d \<in> set (dict_get FASE2_RESTRICCION_HOLOGRAMA_0_00
                    (isoweekday (case fo of None \<Rightarrow> hoy | Some f \<Rightarrow> f)) []))"
  shows "\<exists>r. evaluar_circulacion hoy d h n fo = Inr r \<and> puede_circular r
           \<and> \<not> restriccion_normal r \<and> \<not> restriccion_contingencia r
           \<and> razon r = ''Holograma '' @ h @ '' est'' @ [CHR 0xC3, CHR 0xA1]
                @ '' exento del programa Hoy No Circula.''"
  using assms by (auto simp add: evaluar_circulacion_def Let_def split del: if_split)

lemma evaluar_restringido_razon:
  assumes "Holograma_of h = Some he" "he = UNO \<or> he = DOS" "in_range 0 10 d"
  shows "\<exists>r. evaluar_circulacion hoy d h n fo = Inr r
           \<and> puede_circular r = (\<not> (restriccion_normal r \<or> restriccion_contingencia r))
           \<and> dia r = dict_get NOMBRES_DIA (isoweekday (case fo of None \<Rightarrow> hoy | Some f \<Rightarrow> f))
                        (strftime_A (case fo of None \<Rightarrow> hoy | Some f \<Rightarrow> f))
           \<and> razon r =
               (if restriccion_normal r then
                  ''Placa terminada en '' @ str_int d @ '' con holograma '' @ h
                    @ '' NO CIRCULA el '' @ dia r @ '' por: ''
                    @ ''programa Hoy No Circula regular'' @ ''.''
                else if restriccion_contingencia r then
                  ''Placa terminada en '' @ str_int d @ '' con holograma '' @ h
                    @ '' NO CIRCULA el '' @ dia r @ '' por: ''
                    @ (''contingencia ambiental ''
                        @ upper (replace_char (CHR ''_'') (CHR '' '') (NivelContingencia_value n)))
                    @ ''.''
                else ''Placa terminada en '' @ str_int d @ '' con holograma '' @ h
                    @ '' puede circular el '' @ dia r @ '' sin restricciones.'')"
proof -
  have he: "he \<noteq> CERO_CERO" "he \<noteq> CERO" using assms(2) by auto
  show ?thesis
  proof (cases "RESTRICCION_SEMANAL (isoweekday (case fo of None \<Rightarrow> hoy | Some f \<Rightarrow> f))")
    case None
    then show ?thesis
      using assms(1,3) he
      by (cases n) (auto simp add: evaluar_circulacion_def Let_def in_range_def
          RESTRICCION_SEMANAL_simps(6))
  next
    case (Some ds)
    then show ?thesis
      using assms(1,3) he
      by (cases n) (auto simp add: evaluar_circulacion_def Let_def in_range_def
          RESTRICCION_SEMANAL_simps(6))
  qed
qed

lemma evaluar_restringido_flags:
  assumes "Holograma_of h = Some he" "he = UNO \<or> he = DOS" "in_range 0 10 d"
  shows "\<exists>r. evaluar_circulacion hoy d h n fo = Inr r
           \<and> puede_circular r = (\<not> (restriccion_normal r \<or> restriccion_contingencia r))
           \<and> restriccion_normal r =
               ((case RESTRICCION_SEMANAL (isoweekday (case fo of None \<Rightarrow> hoy | Some f \<Rightarrow> f)) of
                   None \<Rightarrow> False | Some ds \<Rightarrow> d \<in> set ds)
                \<or> (isoweekday (case fo of None \<Rightarrow> hoy | Some f \<Rightarrow> f) = 6 \<and> he = DOS
                    \<and> d \<in> set (digitos_restringidos_sabado
                                 (case fo of None \<Rightarrow> hoy | Some f \<Rightarrow> f))))
           \<and> restriccion_contingencia r =
               (if n = FASE_1 then restriccion_normal r
                else n = FASE_2
                     \<and> in_range 1 6 (isoweekday (case fo of None \<Rightarrow> hoy | Some f \<Rightarrow> f)))"
proof -
  have he: "he \<noteq> CERO_CERO" "he \<noteq> CERO" using assms(2) by auto
  show ?thesis
  proof (cases "RESTRICCION_SEMANAL (isoweekday (case fo of None \<Rightarrow> hoy | Some f \<Rightarrow> f))")
    case None
    then show ?thesis
      using assms(1,3) he
      by (cases n) (auto simp add: evaluar_circulacion_def Let_def in_range_def
          RESTRICCION_SEMANAL_simps(6))
  next
    case (Some ds)
    then show ?thesis
      using assms(1,3) he
      by (cases n) (auto simp add: evaluar_circulacion_def Let_def in_range_def
          RESTRICCION_SEMANAL_simps(6))
  qed
qed

lemma holo_exento:
  assumes "h \<in> {''00'', ''0''}"
  shows "\<exists>he. Holograma_of h = Some he \<and> (he = CERO_CERO \<or> he = CERO)"
  using assms by (auto simp: Holograma_of_values)

lemma holo_restringido:
  assumes "h \<in> {''1'', ''2''}"
  shows "\<exists>he. Holograma_of h = Some he \<and> (he = UNO \<or> he = DOS) \<and> (he = DOS \<longleftrightarrow> h = ''2'')"
  using assms by (auto simp: Holograma_of_values)

lemma evaluar_raises_holograma:
  assumes "Holograma_of h = None"
  shows "\<exists>msg. evaluar_circulacion hoy d h n fo = Inl (ValueError msg)"
  using assms by (simp add: evaluar_circulacion_def Let_def split del: if_split)

lemma evaluar_raises_digito:
  assumes "Holograma_of h = Some he" "\<not> in_range 0 10 d"
  shows "\<exists>msg. evaluar_circulacion hoy d h n fo = Inl (ValueError msg)"
  using assms by (simp add: evaluar_circulacion_def Let_def split del: if_split)

lemma evaluar_returns:
  assumes "Holograma_of h = Some he" "in_range 0 10 d"
  shows "\<exists>r. evaluar_circulacion hoy d h n fo = Inr r"
proof -
  consider "he = CERO_CERO \<or> he = CERO" | "he = UNO \<or> he = DOS"
    by (cases he) auto
  then show ?thesis
  proof cases
    case 1
    show ?thesis
    proof (cases "n = FASE_2 \<and> d \<in> set (dict_get FASE2_RESTRICCION_HOLOGRAMA_0_00
                    (isoweekday (case fo of None \<Rightarrow> hoy | Some f \<Rightarrow> f)) [])")
      case True
      then have "n = FASE_2" "d \<in> set (dict_get FASE2_RESTRICCION_HOLOGRAMA_0_00
                    (isoweekday (case fo of None \<Rightarrow> hoy | Some f \<Rightarrow> f)) [])" by simp_all
      from evaluar_exento_restringe [OF assms(1) 1 assms(2) this] show ?thesis by blast
    next
      case False
      from evaluar_exento_libre [OF assms(1) 1 assms(2) False] show ?thesis by blast
    qed
  next
    case 2
    from evaluar_restringido_flags [OF assms(1) 2 assms(2), of hoy n fo]
    show ?thesis by blast
  qed
qed

lemma evaluar_Inl_iff:
  "(\<exists>e. evaluar_circulacion hoy d h n fo = Inl e)
     \<longleftrightarrow> (Holograma_of h = None \<or> \<not> in_range 0 10 d)"
proof (cases "Holograma_of h")
  case None
  with evaluar_raises_holograma [OF None, of hoy d n fo] show ?thesis by blast
next
  case (Some he)
  show ?thesis
  proof (cases "in_range 0 10 d")
    case True
    with evaluar_returns [OF Some True, of hoy n fo] Some show ?thesis by auto
  next
    case False
    with evaluar_raises_digito [OF Some False, of hoy n fo] show ?thesis by blast
  qed
qed

text \<open>Concrete dates: the first week of January 2024 and two Saturdays of June 2024.\<close>

lemma isoweekday_ejemplos:
  "isoweekday \<lparr>year = 2024, month = 1, day = 1\<rparr> = 1"
  "isoweekday \<lparr>year = 2024, month = 1, day = 2\<rparr> = 2"
  "isoweekday \<lparr>year = 2024, month = 1, day = 3\<rparr> = 3"
  "isoweekday \<lparr>year = 2024, month = 1, day = 4\<rparr> = 4"
  "isoweekday \<lparr>year = 2024, month = 1, day = 5\<rparr> = 5"
  "isoweekday \<lparr>year = 2024, month = 1, day = 6\<rparr> = 6"
  "isoweekday \<lparr>year = 2024, month = 1, day = 7\<rparr> = 7"
  "isoweekday \<lparr>year = 2024, month = 6, day = 1\<rparr> = 6"
  "isoweekday \<lparr>year = 2024, month = 6, day = 8\<rparr> = 6"
  by (simp_all add: isoweekday_def toordinal_def days_before_year_def days_before_month_def
      DAYS_BEFORE_MONTH_def is_leap_def)

lemma valid_date_ejemplos:
  "valid_date \<lparr>year = 2024, month = 1, day = 1\<rparr>"
  "valid_date \<lparr>year = 2024, month = 1, day = 6\<rparr>"
  "valid_date \<lparr>year = 2024, month = 1, day = 7\<rparr>"
  "valid_date \<lparr>year = 2024, month = 6, day = 1\<rparr>"
  "valid_date \<lparr>year = 2024, month = 6, day = 8\<rparr>"
  by (simp_all add: valid_date_def days_in_month_def DAYS_IN_MONTH_def is_leap_def)

lemma str_int_digitos:
  "str_int 0 = ''0''" "str_int 1 = ''1''" "str_int 2 = ''2''" "str_int 3 = ''3''"
  "str_int 4 = ''4''" "str_int 5 = ''5''" "str_int 6 = ''6''" "str_int 7 = ''7''"
  "str_int 8 = ''8''" "str_int 9 = ''9''"
  by code_simp+

lemma etiqueta_nivel:
  "upper (replace_char (CHR ''_'') (CHR '' '') (NivelContingencia_value NINGUNA)) = ''NINGUNA''"
  "upper (replace_char (CHR ''_'') (CHR '' '') (NivelContingencia_value FASE_1)) = ''FASE 1''"
  "upper (replace_char (CHR ''_'') (CHR '' '') (NivelContingencia_value FASE_2)) = ''FASE 2''"
  by code_simp+

lemma NOMBRES_DIA_simps:
  "NOMBRES_DIA 1 = Some ''lunes''" "NOMBRES_DIA 2 = Some ''martes''"
  "NOMBRES_DIA 3 = Some (''mi'' @ [CHR 0xC3, CHR 0xA9] @ ''rcoles'')"
  "NOMBRES_DIA 4 = Some ''jueves''" "NOMBRES_DIA 5 = Some ''viernes''"
  "NOMBRES_DIA 6 = Some (''s'' @ [CHR 0xC3, CHR 0xA1] @ ''bado'')"
  "NOMBRES_DIA 7 = Some ''domingo''"
  by (simp_all add: NOMBRES_DIA_def)

lemma digito_casos:
  "0 \<le> d \<Longrightarrow> d \<le> 9 \<Longrightarrow>
     d = 0 \<or> d = 1 \<or> d = 2 \<or> d = 3 \<or> d = 4 \<or> d = 5 \<or> d = 6 \<or> d = 7 \<or> d = 8 \<or> d = (9::int)"
  by arith

lemma isoweekday_cases:
  "isoweekday f \<in> {1, 2, 3, 4, 5, 6, 7}"
  using isoweekday_range [of f] by auto

lemma fase2_exento_cond:
  assumes "wd \<in> {1, 2, 3, 4, 5, 6, 7}"
  shows "d \<in> set (dict_get FASE2_RESTRICCION_HOLOGRAMA_0_00 wd [])
     \<longleftrightarrow> ((wd = 1 \<or> wd = 3 \<or> wd = 5) \<and> d \<in> {0, 1, 2, 3, 4})
         \<or> ((wd = 2 \<or> wd = 4) \<and> d \<in> {5, 6, 7, 8, 9})"
  using assms by (auto simp: dict_get_def FASE2_RESTRICCION_simps)

lemma sabado_union:
  "set SABADO_SEMANAS_IMPARES \<union> set SABADO_SEMANAS_PARES = {0..9}"
proof -
  have "x \<in> set SABADO_SEMANAS_IMPARES \<union> set SABADO_SEMANAS_PARES \<longleftrightarrow> x \<in> {0..9}" for x
  proof
    assume "x \<in> set SABADO_SEMANAS_IMPARES \<union> set SABADO_SEMANAS_PARES"
    then show "x \<in> {0..9}"
      by (auto simp: SABADO_SEMANAS_IMPARES_def SABADO_SEMANAS_PARES_def)
  next
    assume "x \<in> {0..9}"
    then have "0 \<le> x" "x \<le> 9" by simp_all
    from digito_casos [OF this]
    show "x \<in> set SABADO_SEMANAS_IMPARES \<union> set SABADO_SEMANAS_PARES"
      by (auto simp: SABADO_SEMANAS_IMPARES_def SABADO_SEMANAS_PARES_def)
  qed
  then show ?thesis by blast
qed

lemma sabado_disjuntos:
  "set SABADO_SEMANAS_IMPARES \<inter> set SABADO_SEMANAS_PARES = {}"
  by (simp add: SABADO_SEMANAS_IMPARES_def SABADO_SEMANAS_PARES_def)

text \<open>The reason texts of all valid inputs, checked for the phrases they must not contain.\<close>

lemma dia_nombre:
  "dict_get NOMBRES_DIA (isoweekday f) x
     \<in> set [''lunes'', ''martes'', ''mi'' @ [CHR 0xC3, CHR 0xA9] @ ''rcoles'', ''jueves'',
            ''viernes'', ''s'' @ [CHR 0xC3, CHR 0xA1] @ ''bado'', ''domingo'']"
  using isoweekday_cases [of f]
  by (auto simp: dict_get_def NOMBRES_DIA_simps)

lemma regular_no_cita_tabla:
  "list_all (\<lambda>n. list_all (\<lambda>d. list_all (\<lambda>h. list_all (\<lambda>nom.
      \<not> cita_contingencia n
          (''Placa terminada en '' @ str_int d @ '' con holograma '' @ h
             @ '' NO CIRCULA el '' @ nom @ '' por: '' @ ''programa Hoy No Circula regular'' @ ''.''))
     [''lunes'', ''martes'', ''mi'' @ [CHR 0xC3, CHR 0xA9] @ ''rcoles'', ''jueves'', ''viernes'',
      ''s'' @ [CHR 0xC3, CHR 0xA1] @ ''bado'', ''domingo''])
     [''1'', ''2'']) [0, 1, 2, 3, 4, 5, 6, 7, 8, 9]) [FASE_1, FASE_2]"
  by code_simp

lemma libre_tabla:
  "list_all (\<lambda>d. list_all (\<lambda>h. list_all (\<lambda>nom.
      \<not> sublist ''NO CIRCULA''
          (''Placa terminada en '' @ str_int d @ '' con holograma '' @ h
             @ '' puede circular el '' @ nom @ '' sin restricciones.'')
      \<and> \<not> sublist ''no circulan''
          (''Placa terminada en '' @ str_int d @ '' con holograma '' @ h
             @ '' puede circular el '' @ nom @ '' sin restricciones.''))
     [''lunes'', ''martes'', ''mi'' @ [CHR 0xC3, CHR 0xA9] @ ''rcoles'', ''jueves'', ''viernes'',
      ''s'' @ [CHR 0xC3, CHR 0xA1] @ ''bado'', ''domingo''])
     [''1'', ''2'']) [0, 1, 2, 3, 4, 5, 6, 7, 8, 9]"
  by code_simp

lemma exento_tabla:
  "list_all (\<lambda>h.
      \<not> sublist ''NO CIRCULA''
          (''Holograma '' @ h @ '' est'' @ [CHR 0xC3, CHR 0xA1]
             @ '' exento del programa Hoy No Circula.'')
      \<and> \<not> sublist ''no circulan''
          (''Holograma '' @ h @ '' est'' @ [CHR 0xC3, CHR 0xA1]
             @ '' exento del programa Hoy No Circula.''))
     [''00'', ''0'']"
  by code_simp

lemma regular_no_cita:
  assumes "0 \<le> d" "d \<le> 9" "h \<in> {''1'', ''2''}" "n \<noteq> NINGUNA"
    and "nom \<in> set [''lunes'', ''martes'', ''mi'' @ [CHR 0xC3, CHR 0xA9] @ ''rcoles'', ''jueves'',
            ''viernes'', ''s'' @ [CHR 0xC3, CHR 0xA1] @ ''bado'', ''domingo'']"
  shows "\<not> cita_contingencia n
          (''Placa terminada en '' @ str_int d @ '' con holograma '' @ h
             @ '' NO CIRCULA el '' @ nom @ '' por: '' @ ''programa Hoy No Circula regular'' @ ''.'')"
proof -
  have n: "n \<in> set [FASE_1, FASE_2]" using assms(4) by (cases n) auto
  have d: "d \<in> set [0, 1, 2, 3, 4, 5, 6, 7, 8, 9]"
    using digito_casos [OF assms(1,2)] by auto
  have h: "h \<in> set [''1'', ''2'']" using assms(3) by auto
  from regular_no_cita_tabla n d h assms(5) show ?thesis
    unfolding list_all_iff by blast
qed

lemma libre_sin_prohibicion:
  assumes "0 \<le> d" "d \<le> 9" "h \<in> {''1'', ''2''}"
    and "nom \<in> set [''lunes'', ''martes'', ''mi'' @ [CHR 0xC3, CHR 0xA9] @ ''rcoles'', ''jueves'',
            ''viernes'', ''s'' @ [CHR 0xC3, CHR 0xA1] @ ''bado'', ''domingo'']"
  shows "mensaje_sin_restriccion
          (''Placa terminada en '' @ str_int d @ '' con holograma '' @ h
             @ '' puede circular el '' @ nom @ '' sin restricciones.'')"
proof -
  let ?t = "''Placa terminada en '' @ str_int d @ '' con holograma '' @ h
             @ '' puede circular el '' @ nom @ '' sin restricciones.''"
  have d: "d \<in> set [0, 1, 2, 3, 4, 5, 6, 7, 8, 9]"
    using digito_casos [OF assms(1,2)] by auto
  have h: "h \<in> set [''1'', ''2'']" using assms(3) by auto
  from libre_tabla d h assms(4)
  have neg: "\<not> sublist ''NO CIRCULA'' ?t \<and> \<not> sublist ''no circulan'' ?t"
    unfolding list_all_iff by blast
  have "?t = (''Placa terminada en '' @ str_int d @ '' con holograma '' @ h
             @ '' puede circular el '' @ nom @ '' '') @ ''sin restricciones'' @ ''.''"
    by simp
  then have "sublist ''sin restricciones'' ?t"
    by (metis sublist_appendI)
  with neg show ?thesis unfolding mensaje_sin_restriccion_def by blast
qed

lemma exento_sin_prohibicion:
  assumes "h \<in> {''00'', ''0''}"
  shows "mensaje_sin_restriccion
          (''Holograma '' @ h @ '' est'' @ [CHR 0xC3, CHR 0xA1]
             @ '' exento del programa Hoy No Circula.'')"
proof -
  let ?t = "''Holograma '' @ h @ '' est'' @ [CHR 0xC3, CHR 0xA1]
             @ '' exento del programa Hoy No Circula.''"
  have h: "h \<in> set [''00'', ''0'']" using assms by auto
  from exento_tabla h
  have neg: "\<not> sublist ''NO CIRCULA'' ?t \<and> \<not> sublist ''no circulan'' ?t"
    unfolding list_all_iff by blast
  have "?t = (''Holograma '' @ h @ '' est'' @ [CHR 0xC3, CHR 0xA1] @ '' '')
               @ ''exento del programa Hoy No Circula'' @ ''.''"
    by simp
  then have "sublist ''exento del programa Hoy No Circula'' ?t"
    by (metis sublist_appendI)
  with neg show ?thesis unfolding mensaje_sin_restriccion_def by blast
qed

lemma cita_regular_texto:
  "cita_programa_regular (a @ ''programa Hoy No Circula regular'' @ b)"
  unfolding cita_programa_regular_def by (rule sublist_appendI)

lemma cita_contingencia_texto:
  "cita_contingencia n (a @ (''contingencia ambiental ''
       @ upper (replace_char (CHR ''_'') (CHR '' '') (NivelContingencia_value n))) @ b)"
  unfolding cita_contingencia_def by (rule disjI1) (rule sublist_appendI)

lemma cita_contingencia_exento:
  "cita_contingencia FASE_2
     (''Holograma '' @ h @ '': normalmente exento, pero en CONTINGENCIA FASE 2 el '' @ b)"
proof -
  have "''Holograma '' @ h @ '': normalmente exento, pero en CONTINGENCIA FASE 2 el '' @ b
      = (''Holograma '' @ h @ '': normalmente exento, pero en '')
          @ (''CONTINGENCIA '' @ ''FASE 2'') @ ('' el '' @ b)"
    by simp
  then have "sublist (''CONTINGENCIA '' @ ''FASE 2'')
      (''Holograma '' @ h @ '': normalmente exento, pero en CONTINGENCIA FASE 2 el '' @ b)"
    by (metis sublist_appendI)
  then show ?thesis
    unfolding cita_contingencia_def etiqueta_nivel by (rule disjI2)
qed

section \<open>The properties of the evaluation\<close>

text \<open>
  In every statement \<open>hoy\<close> is the reading of the clock and \<open>fo\<close> the optional date
  argument, so the date evaluated is \<open>case fo of None \<Rightarrow> hoy | Some f \<Rightarrow> f\<close>. The
  statements hold for every record of type \<open>date\<close>, hence for every calendar date.
\<close>

text \<open>
  Claim C2. \<open>evaluar_circulacion\<close> raises its validation error (a \<open>ValueError\<close>) if and
  only if the last digit lies outside 0..9 or the sticker is none of \<open>"00"\<close>, \<open>"0"\<close>,
  \<open>"1"\<close>, \<open>"2"\<close>; on every valid digit and sticker, for each of the three contingency
  levels and any date, it returns a result.
\<close>

theorem evaluar_valida_entrada:
  "((\<exists>msg. evaluar_circulacion hoy d h n fo = Inl (ValueError msg))
      \<longleftrightarrow> (d < 0 \<or> 9 < d \<or> h \<notin> {''00'', ''0'', ''1'', ''2''}))
   \<and> (0 \<le> d \<and> d \<le> 9 \<and> h \<in> {''00'', ''0'', ''1'', ''2''}
      \<longrightarrow> (\<exists>r. evaluar_circulacion hoy d h n fo = Inr r))"
proof -
  have a: "(\<exists>msg. evaluar_circulacion hoy d h n fo = Inl (ValueError msg))
      \<longleftrightarrow> (\<exists>e. evaluar_circulacion hoy d h n fo = Inl e)"
    by (metis error.exhaust)
  have b: "(Holograma_of h = None \<or> \<not> in_range 0 10 d)
      \<longleftrightarrow> (d < 0 \<or> 9 < d \<or> h \<notin> {''00'', ''0'', ''1'', ''2''})"
    unfolding Holograma_of_None in_range_def by auto
  have c: "(\<exists>msg. evaluar_circulacion hoy d h n fo = Inl (ValueError msg))
      \<longleftrightarrow> (d < 0 \<or> 9 < d \<or> h \<notin> {''00'', ''0'', ''1'', ''2''})"
    using a b evaluar_Inl_iff [of hoy d h n fo] by simp
  have "\<exists>r. evaluar_circulacion hoy d h n fo = Inr r"
    if "0 \<le> d \<and> d \<le> 9 \<and> h \<in> {''00'', ''0'', ''1'', ''2''}"
  proof (cases "evaluar_circulacion hoy d h n fo")
    case (Inl e)
    then have "\<exists>msg. evaluar_circulacion hoy d h n fo = Inl (ValueError msg)"
      using a by blast
    with c that show ?thesis by auto
  next
    case (Inr r)
    then show ?thesis by blast
  qed
  with c show ?thesis by blast
qed

theorem evaluar_valida_entrada_witness:
  "(\<exists>r. evaluar_circulacion \<lparr>year = 2024, month = 6, day = 8\<rparr> 5 ''1'' NINGUNA
          (Some \<lparr>year = 2024, month = 1, day = 1\<rparr>) = Inr r)
   \<and> (\<exists>msg. evaluar_circulacion \<lparr>year = 2024, month = 6, day = 8\<rparr> 12 ''1'' NINGUNA
          (Some \<lparr>year = 2024, month = 1, day = 1\<rparr>) = Inl (ValueError msg))
   \<and> (\<exists>msg. evaluar_circulacion \<lparr>year = 2024, month = 6, day = 8\<rparr> 5 ''3'' NINGUNA
          (Some \<lparr>year = 2024, month = 1, day = 1\<rparr>) = Inl (ValueError msg))"
  using evaluar_valida_entrada [where d = 5 and h = "''1''" and n = NINGUNA
      and hoy = "\<lparr>year = 2024, month = 6, day = 8\<rparr>"
      and fo = "Some \<lparr>year = 2024, month = 1, day = 1\<rparr>"]
    evaluar_valida_entrada [where d = 12 and h = "''1''" and n = NINGUNA
      and hoy = "\<lparr>year = 2024, month = 6, day = 8\<rparr>"
      and fo = "Some \<lparr>year = 2024, month = 1, day = 1\<rparr>"]
    evaluar_valida_entrada [where d = 5 and h = "''3''" and n = NINGUNA
      and hoy = "\<lparr>year = 2024, month = 6, day = 8\<rparr>"
      and fo = "Some \<lparr>year = 2024, month = 1, day = 1\<rparr>"]
  by simp

text \<open>
  Claim C3. On a Sunday (ISO weekday 7) every valid input, whatever the digit, the sticker
  and the contingency level, may drive.
\<close>

theorem domingo_puede_circular:
  assumes "0 \<le> d" "d \<le> 9" "h \<in> {''00'', ''0'', ''1'', ''2''}"
    and "isoweekday (case fo of None \<Rightarrow> hoy | Some f \<Rightarrow> f) = 7"
  shows "\<exists>r. evaluar_circulacion hoy d h n fo = Inr r \<and> puede_circular r"
proof -
  have dr: "in_range 0 10 d" using assms(1,2) by (simp add: in_range_def)
  consider "h \<in> {''00'', ''0''}" | "h \<in> {''1'', ''2''}" using assms(3) by auto
  then show ?thesis
  proof cases
    case 1
    then obtain he where he: "Holograma_of h = Some he" "he = CERO_CERO \<or> he = CERO"
      using holo_exento by blast
    have "\<not> (n = FASE_2 \<and> d \<in> set (dict_get FASE2_RESTRICCION_HOLOGRAMA_0_00
                    (isoweekday (case fo of None \<Rightarrow> hoy | Some f \<Rightarrow> f)) []))"
      using assms(4) by (simp add: dict_get_def FASE2_RESTRICCION_simps)
    from evaluar_exento_libre [OF he dr this] show ?thesis by blast
  next
    case 2
    then obtain he where he: "Holograma_of h = Some he" "he = UNO \<or> he = DOS"
      using holo_restringido by blast
    from evaluar_restringido_flags [OF he dr, of hoy n fo] assms(4)
    show ?thesis by (auto simp: RESTRICCION_SEMANAL_simps in_range_def split: if_splits)
  qed
qed

theorem domingo_puede_circular_witness:
  "\<exists>r. evaluar_circulacion \<lparr>year = 2024, month = 6, day = 8\<rparr> 5 ''2'' FASE_2
         (Some \<lparr>year = 2024, month = 1, day = 7\<rparr>) = Inr r \<and> puede_circular r"
  using domingo_puede_circular [where d = 5 and h = "''2''" and n = FASE_2
      and hoy = "\<lparr>year = 2024, month = 6, day = 8\<rparr>"
      and fo = "Some \<lparr>year = 2024, month = 1, day = 7\<rparr>"]
  by (simp add: isoweekday_ejemplos)

text \<open>
  Claim C4. For stickers \<open>"1"\<close> and \<open>"2"\<close> under Phase 1, the contingency flag of the
  result is true exactly when the base flag is: Phase 1 adds no restriction day.
\<close>

theorem fase1_refuerza_normal:
  assumes "0 \<le> d" "d \<le> 9" "h \<in> {''1'', ''2''}"
  shows "\<exists>r. evaluar_circulacion hoy d h FASE_1 fo = Inr r
           \<and> (restriccion_contingencia r \<longleftrightarrow> restriccion_normal r)"
proof -
  have dr: "in_range 0 10 d" using assms(1,2) by (simp add: in_range_def)
  obtain he where he: "Holograma_of h = Some he" "he = UNO \<or> he = DOS"
    using holo_restringido [OF assms(3)] by blast
  from evaluar_restringido_flags [OF he dr, of hoy FASE_1 fo]
  show ?thesis by auto
qed

theorem fase1_refuerza_normal_witness:
  "\<exists>r. evaluar_circulacion \<lparr>year = 2024, month = 6, day = 8\<rparr> 5 ''1'' FASE_1
         (Some \<lparr>year = 2024, month = 1, day = 1\<rparr>) = Inr r
       \<and> (restriccion_contingencia r \<longleftrightarrow> restriccion_normal r)"
  using fase1_refuerza_normal [where d = 5 and h = "''1''"
      and hoy = "\<lparr>year = 2024, month = 6, day = 8\<rparr>"
      and fo = "Some \<lparr>year = 2024, month = 1, day = 1\<rparr>"]
  by simp

text \<open>
  Claim C5. For stickers \<open>"1"\<close> and \<open>"2"\<close> under Phase 2, on Monday to Friday (ISO
  weekday 1..5) the vehicle may not drive, whatever its last digit.
\<close>

theorem fase2_restringe_lunes_a_viernes:
  assumes "0 \<le> d" "d \<le> 9" "h \<in> {''1'', ''2''}"
    and "1 \<le> isoweekday (case fo of None \<Rightarrow> hoy | Some f \<Rightarrow> f)"
    and "isoweekday (case fo of None \<Rightarrow> hoy | Some f \<Rightarrow> f) \<le> 5"
  shows "\<exists>r. evaluar_circulacion hoy d h FASE_2 fo = Inr r \<and> \<not> puede_circular r"
proof -
  have dr: "in_range 0 10 d" using assms(1,2) by (simp add: in_range_def)
  obtain he where he: "Holograma_of h = Some he" "he = UNO \<or> he = DOS"
    using holo_restringido [OF assms(3)] by blast
  from evaluar_restringido_flags [OF he dr, of hoy FASE_2 fo] assms(4,5)
  show ?thesis by (auto simp: in_range_def split: if_splits)
qed

theorem fase2_restringe_lunes_a_viernes_witness:
  "\<exists>r. evaluar_circulacion \<lparr>year = 2024, month = 6, day = 8\<rparr> 3 ''2'' FASE_2
         (Some \<lparr>year = 2024, month = 1, day = 2\<rparr>) = Inr r \<and> \<not> puede_circular r"
  using fase2_restringe_lunes_a_viernes [where d = 3 and h = "''2''"
      and hoy = "\<lparr>year = 2024, month = 6, day = 8\<rparr>"
      and fo = "Some \<lparr>year = 2024, month = 1, day = 2\<rparr>"]
  by (simp add: isoweekday_ejemplos)

text \<open>
  Claim C6. An exempt sticker (\<open>"00"\<close> or \<open>"0"\<close>) with no contingency or under Phase 1
  may drive, for every last digit 0..9 and every weekday.
\<close>

theorem exentos_circulan_sin_fase2:
  assumes "0 \<le> d" "d \<le> 9" "h \<in> {''00'', ''0''}" "n \<in> {NINGUNA, FASE_1}"
  shows "\<exists>r. evaluar_circulacion hoy d h n fo = Inr r \<and> puede_circular r"
proof -
  have dr: "in_range 0 10 d" using assms(1,2) by (simp add: in_range_def)
  obtain he where he: "Holograma_of h = Some he" "he = CERO_CERO \<or> he = CERO"
    using holo_exento [OF assms(3)] by blast
  have "\<not> (n = FASE_2 \<and> d \<in> set (dict_get FASE2_RESTRICCION_HOLOGRAMA_0_00
                  (isoweekday (case fo of None \<Rightarrow> hoy | Some f \<Rightarrow> f)) []))"
    using assms(4) by auto
  from evaluar_exento_libre [OF he dr this] show ?thesis by blast
qed

theorem exentos_circulan_sin_fase2_witness:
  "\<exists>r. evaluar_circulacion \<lparr>year = 2024, month = 6, day = 8\<rparr> 9 ''0'' FASE_1
         (Some \<lparr>year = 2024, month = 1, day = 3\<rparr>) = Inr r \<and> puede_circular r"
  using exentos_circulan_sin_fase2 [where d = 9 and h = "''0''" and n = FASE_1
      and hoy = "\<lparr>year = 2024, month = 6, day = 8\<rparr>"
      and fo = "Some \<lparr>year = 2024, month = 1, day = 3\<rparr>"]
  by simp

text \<open>
  Claim C9. With sticker \<open>"1"\<close> on a Saturday (ISO weekday 6) the vehicle may drive and
  neither flag is set, for every last digit and every contingency level.
\<close>

theorem holograma_uno_circula_sabado:
  assumes "0 \<le> d" "d \<le> 9"
    and "isoweekday (case fo of None \<Rightarrow> hoy | Some f \<Rightarrow> f) = 6"
  shows "\<exists>r. evaluar_circulacion hoy d ''1'' n fo = Inr r \<and> puede_circular r
           \<and> \<not> restriccion_normal r \<and> \<not> restriccion_contingencia r"
proof -
  have dr: "in_range 0 10 d" using assms(1,2) by (simp add: in_range_def)
  have he: "Holograma_of ''1'' = Some UNO" "UNO = UNO \<or> UNO = DOS"
    by (simp_all add: Holograma_of_values)
  from evaluar_restringido_flags [OF he dr, of hoy n fo] assms(3)
  show ?thesis by (auto simp: RESTRICCION_SEMANAL_simps in_range_def split: if_splits)
qed

theorem holograma_uno_circula_sabado_witness:
  "\<exists>r. evaluar_circulacion \<lparr>year = 2024, month = 6, day = 8\<rparr> 7 ''1'' FASE_2 None = Inr r
       \<and> puede_circular r \<and> \<not> restriccion_normal r \<and> \<not> restriccion_contingencia r"
  using holograma_uno_circula_sabado [where d = 7 and n = FASE_2
      and hoy = "\<lparr>year = 2024, month = 6, day = 8\<rparr>" and fo = None]
  by (simp add: isoweekday_ejemplos)

text \<open>
  Claim C10. Every record the evaluation returns, on each of its three return paths,
  satisfies \<open>puede_circular = not (restriccion_normal or restriccion_contingencia)\<close>, and
  for the exempt stickers \<open>"00"\<close> and \<open>"0"\<close> the base flag is false, also when Phase 2
  restricts the vehicle.
\<close>

theorem resultado_consistente:
  assumes "evaluar_circulacion hoy d h n fo = Inr r"
  shows "puede_circular r = (\<not> (restriccion_normal r \<or> restriccion_contingencia r))
     \<and> (h \<in> {''00'', ''0''} \<longrightarrow> \<not> restriccion_normal r)"
proof -
  from assms have nl: "\<not> (\<exists>e. evaluar_circulacion hoy d h n fo = Inl e)" by simp
  then have v: "Holograma_of h \<noteq> None" "in_range 0 10 d"
    using evaluar_Inl_iff [of hoy d h n fo] by auto
  then have hv: "h \<in> {''00'', ''0'', ''1'', ''2''}"
    using Holograma_of_None [of h] by auto
  then consider "h \<in> {''00'', ''0''}" | "h \<in> {''1'', ''2''}" by auto
  then show ?thesis
  proof cases
    case 1
    then obtain he where he: "Holograma_of h = Some he" "he = CERO_CERO \<or> he = CERO"
      using holo_exento by blast
    show ?thesis
    proof (cases "n = FASE_2 \<and> d \<in> set (dict_get FASE2_RESTRICCION_HOLOGRAMA_0_00
                    (isoweekday (case fo of None \<Rightarrow> hoy | Some f \<Rightarrow> f)) [])")
      case True
      then have "n = FASE_2" "d \<in> set (dict_get FASE2_RESTRICCION_HOLOGRAMA_0_00
                    (isoweekday (case fo of None \<Rightarrow> hoy | Some f \<Rightarrow> f)) [])" by simp_all
      from evaluar_exento_restringe [OF he v(2) this] assms show ?thesis by auto
    next
      case False
      from evaluar_exento_libre [OF he v(2) False] assms show ?thesis by auto
    qed
  next
    case 2
    then obtain he where he: "Holograma_of h = Some he" "he = UNO \<or> he = DOS"
      using holo_restringido by blast
    have "h \<notin> {''00'', ''0''}" using 2 by auto
    with evaluar_restringido_flags [OF he v(2), of hoy n fo] assms
    show ?thesis by auto
  qed
qed

theorem resultado_consistente_witness:
  "\<exists>r. evaluar_circulacion \<lparr>year = 2024, month = 6, day = 8\<rparr> 0 ''00'' FASE_2
         (Some \<lparr>year = 2024, month = 1, day = 1\<rparr>) = Inr r
       \<and> puede_circular r = (\<not> (restriccion_normal r \<or> restriccion_contingencia r))
       \<and> \<not> restriccion_normal r \<and> restriccion_contingencia r"
proof -
  have "(0::int) \<in> set (dict_get FASE2_RESTRICCION_HOLOGRAMA_0_00
          (isoweekday (case Some \<lparr>year = 2024, month = 1, day = 1\<rparr> of
                         None \<Rightarrow> \<lparr>year = 2024, month = 6, day = 8\<rparr> | Some f \<Rightarrow> f)) [])"
    by (simp add: isoweekday_ejemplos dict_get_def FASE2_RESTRICCION_simps)
  from evaluar_exento_restringe [OF Holograma_of_values(1) _ _ refl this]
  obtain r where e: "evaluar_circulacion \<lparr>year = 2024, month = 6, day = 8\<rparr> 0 ''00'' FASE_2
         (Some \<lparr>year = 2024, month = 1, day = 1\<rparr>) = Inr r"
    and c: "restriccion_contingencia r"
    by (auto simp: in_range_def)
  from resultado_consistente [OF e] e c show ?thesis by simp
qed

text \<open>
  Claim C7. For an exempt sticker (\<open>"00"\<close> or \<open>"0"\<close>) under Phase 2, the vehicle is
  refused with the contingency flag set if and only if the ISO weekday is 1..5 and the last
  digit is in that weekday's entry of \<open>FASE2_RESTRICCION_HOLOGRAMA_0_00\<close>, that is
  0..4 on Monday, Wednesday and Friday and 5..9 on Tuesday and Thursday; otherwise it may
  drive, and on Saturday and Sunday it is never restricted.
\<close>

theorem exentos_fase2_tabla:
  assumes "0 \<le> d" "d \<le> 9" "h \<in> {''00'', ''0''}"
  shows "\<exists>r. evaluar_circulacion hoy d h FASE_2 fo = Inr r
     \<and> ((\<not> puede_circular r \<and> restriccion_contingencia r)
          \<longleftrightarrow> (1 \<le> isoweekday (case fo of None \<Rightarrow> hoy | Some f \<Rightarrow> f)
               \<and> isoweekday (case fo of None \<Rightarrow> hoy | Some f \<Rightarrow> f) \<le> 5
               \<and> (\<exists>ds. FASE2_RESTRICCION_HOLOGRAMA_0_00
                          (isoweekday (case fo of None \<Rightarrow> hoy | Some f \<Rightarrow> f)) = Some ds
                        \<and> d \<in> set ds)))
     \<and> ((\<not> puede_circular r \<and> restriccion_contingencia r)
          \<longleftrightarrow> (isoweekday (case fo of None \<Rightarrow> hoy | Some f \<Rightarrow> f) \<in> {1, 3, 5}
                 \<and> d \<in> {0, 1, 2, 3, 4})
              \<or> (isoweekday (case fo of None \<Rightarrow> hoy | Some f \<Rightarrow> f) \<in> {2, 4}
                 \<and> d \<in> {5, 6, 7, 8, 9}))
     \<and> (puede_circular r \<longleftrightarrow> \<not> restriccion_contingencia r)
     \<and> (isoweekday (case fo of None \<Rightarrow> hoy | Some f \<Rightarrow> f) \<in> {6, 7}
          \<longrightarrow> puede_circular r \<and> \<not> restriccion_normal r \<and> \<not> restriccion_contingencia r)"
proof -
  let ?wd = "isoweekday (case fo of None \<Rightarrow> hoy | Some f \<Rightarrow> f)"
  have dr: "in_range 0 10 d" using assms(1,2) by (simp add: in_range_def)
  obtain he where he: "Holograma_of h = Some he" "he = CERO_CERO \<or> he = CERO"
    using holo_exento [OF assms(3)] by blast
  have wd: "?wd \<in> {1, 2, 3, 4, 5, 6, 7}" by (rule isoweekday_cases)
  have tab: "(1 \<le> ?wd \<and> ?wd \<le> 5
               \<and> (\<exists>ds. FASE2_RESTRICCION_HOLOGRAMA_0_00 ?wd = Some ds \<and> d \<in> set ds))
      \<longleftrightarrow> d \<in> set (dict_get FASE2_RESTRICCION_HOLOGRAMA_0_00 ?wd [])"
    using wd by (auto simp: dict_get_def FASE2_RESTRICCION_simps)
  have expl: "((?wd \<in> {1, 3, 5} \<and> d \<in> {0, 1, 2, 3, 4}) \<or> (?wd \<in> {2, 4} \<and> d \<in> {5, 6, 7, 8, 9}))
      \<longleftrightarrow> d \<in> set (dict_get FASE2_RESTRICCION_HOLOGRAMA_0_00 ?wd [])"
    using fase2_exento_cond [OF wd, of d] by auto
  have wk: "?wd \<in> {6, 7} \<Longrightarrow> d \<notin> set (dict_get FASE2_RESTRICCION_HOLOGRAMA_0_00 ?wd [])"
    by (auto simp: dict_get_def FASE2_RESTRICCION_simps)
  show ?thesis
  proof (cases "d \<in> set (dict_get FASE2_RESTRICCION_HOLOGRAMA_0_00 ?wd [])")
    case True
    from evaluar_exento_restringe [OF he dr refl True]
    obtain r where r: "evaluar_circulacion hoy d h FASE_2 fo = Inr r" "\<not> puede_circular r"
      "\<not> restriccion_normal r" "restriccion_contingencia r" by blast
    have "?wd \<notin> {6, 7}" using wk True by blast
    with r tab expl True show ?thesis by blast
  next
    case False
    then have "\<not> (FASE_2 = FASE_2 \<and> d \<in> set (dict_get FASE2_RESTRICCION_HOLOGRAMA_0_00 ?wd []))"
      by simp
    from evaluar_exento_libre [OF he dr this]
    obtain r where r: "evaluar_circulacion hoy d h FASE_2 fo = Inr r" "puede_circular r"
      "\<not> restriccion_normal r" "\<not> restriccion_contingencia r" by blast
    with tab expl False show ?thesis by blast
  qed
qed

theorem exentos_fase2_tabla_witness:
  "\<exists>r. evaluar_circulacion \<lparr>year = 2024, month = 6, day = 8\<rparr> 0 ''00'' FASE_2
         (Some \<lparr>year = 2024, month = 1, day = 1\<rparr>) = Inr r
       \<and> \<not> puede_circular r \<and> restriccion_contingencia r"
  using exentos_fase2_tabla [where d = 0 and h = "''00''"
      and hoy = "\<lparr>year = 2024, month = 6, day = 8\<rparr>"
      and fo = "Some \<lparr>year = 2024, month = 1, day = 1\<rparr>"]
  by (simp add: isoweekday_ejemplos FASE2_RESTRICCION_simps) blast

text \<open>
  Claim C8. The week of the month is \<open>(day - 1) div 7 + 1\<close>; the Saturday digits depend
  on its parity only, \<open>[5, 6, 7, 8]\<close> on odd weeks and \<open>[0, 1, 2, 3, 4, 9]\<close> on even
  weeks, and the two lists partition 0..9. Hence on two Saturdays of the same month whose
  weeks differ in parity, a vehicle with sticker \<open>"2"\<close> is restricted by the base
  programme on exactly one of them, whatever the contingency level.
\<close>

theorem sabado_rotacion_paridad:
  "semana_del_mes f = (day f - 1) div 7 + 1
   \<and> digitos_restringidos_sabado f
       = (if odd (semana_del_mes f) then [5, 6, 7, 8] else [0, 1, 2, 3, 4, 9])
   \<and> set [5, 6, 7, 8] \<union> set [0, 1, 2, 3, 4, 9] = {0..9::int}
   \<and> set [5, 6, 7, 8] \<inter> set [0, 1, 2, 3, 4, 9 :: int] = {}
   \<and> (0 \<le> d \<and> d \<le> 9 \<and> isoweekday f = 6 \<and> isoweekday g = 6
        \<and> year f = year g \<and> month f = month g
        \<and> odd (semana_del_mes f) \<noteq> odd (semana_del_mes g)
      \<longrightarrow> (\<exists>r s. evaluar_circulacion hoy d ''2'' n (Some f) = Inr r
                 \<and> evaluar_circulacion hoy d ''2'' n (Some g) = Inr s
                 \<and> restriccion_normal r \<noteq> restriccion_normal s
                 \<and> puede_circular r \<noteq> puede_circular s
                 \<and> (d \<in> set (digitos_restringidos_sabado f)
                      \<longleftrightarrow> d \<notin> set (digitos_restringidos_sabado g))))"
proof -
  have a: "semana_del_mes f = (day f - 1) div 7 + 1" by (simp add: semana_del_mes_def)
  have b: "digitos_restringidos_sabado f
       = (if odd (semana_del_mes f) then [5, 6, 7, 8] else [0, 1, 2, 3, 4, 9])" for f
    by (simp add: digitos_restringidos_sabado_def Let_def SABADO_SEMANAS_IMPARES_def
        SABADO_SEMANAS_PARES_def odd_iff_mod_2_eq_one)
  have c: "set [5, 6, 7, 8] \<union> set [0, 1, 2, 3, 4, 9] = {0..9::int}"
    "set [5, 6, 7, 8] \<inter> set [0, 1, 2, 3, 4, 9 :: int] = {}"
    using sabado_union sabado_disjuntos
    unfolding SABADO_SEMANAS_IMPARES_def SABADO_SEMANAS_PARES_def by blast+
  have e: "\<exists>r s. evaluar_circulacion hoy d ''2'' n (Some f) = Inr r
                 \<and> evaluar_circulacion hoy d ''2'' n (Some g) = Inr s
                 \<and> restriccion_normal r \<noteq> restriccion_normal s
                 \<and> puede_circular r \<noteq> puede_circular s
                 \<and> (d \<in> set (digitos_restringidos_sabado f)
                      \<longleftrightarrow> d \<notin> set (digitos_restringidos_sabado g))"
    if h: "0 \<le> d" "d \<le> 9" "isoweekday f = 6" "isoweekday g = 6"
      "odd (semana_del_mes f) \<noteq> odd (semana_del_mes g)"
  proof -
    have dr: "in_range 0 10 d" using h(1,2) by (simp add: in_range_def)
    have he: "Holograma_of ''2'' = Some DOS" "DOS = UNO \<or> DOS = DOS"
      by (simp_all add: Holograma_of_values)
    have dd: "d \<in> {0, 1, 2, 3, 4, 5, 6, 7, 8, 9}" using digito_casos [OF h(1,2)] by auto
    have x: "d \<in> set (digitos_restringidos_sabado f)
                      \<longleftrightarrow> d \<notin> set (digitos_restringidos_sabado g)"
      using h(5) dd unfolding b [of f] b [of g] by auto
    from evaluar_restringido_flags [OF he dr, of hoy n "Some f"] h(3)
    obtain r where r: "evaluar_circulacion hoy d ''2'' n (Some f) = Inr r"
      "restriccion_normal r = (d \<in> set (digitos_restringidos_sabado f))"
      "puede_circular r = (\<not> restriccion_normal r)"
      by (auto simp: RESTRICCION_SEMANAL_simps in_range_def split: if_splits)
    from evaluar_restringido_flags [OF he dr, of hoy n "Some g"] h(4)
    obtain s where s: "evaluar_circulacion hoy d ''2'' n (Some g) = Inr s"
      "restriccion_normal s = (d \<in> set (digitos_restringidos_sabado g))"
      "puede_circular s = (\<not> restriccion_normal s)"
      by (auto simp: RESTRICCION_SEMANAL_simps in_range_def split: if_splits)
    from r s x show ?thesis by auto
  qed
  from a b [of f] c e show ?thesis by blast
qed

theorem sabado_rotacion_paridad_witness:
  "\<exists>r s. evaluar_circulacion \<lparr>year = 2024, month = 1, day = 1\<rparr> 7 ''2'' NINGUNA
             (Some \<lparr>year = 2024, month = 6, day = 1\<rparr>) = Inr r
         \<and> evaluar_circulacion \<lparr>year = 2024, month = 1, day = 1\<rparr> 7 ''2'' NINGUNA
             (Some \<lparr>year = 2024, month = 6, day = 8\<rparr>) = Inr s
         \<and> restriccion_normal r \<noteq> restriccion_normal s
         \<and> puede_circular r \<noteq> puede_circular s"
  using sabado_rotacion_paridad [where d = 7 and n = NINGUNA
      and hoy = "\<lparr>year = 2024, month = 1, day = 1\<rparr>"
      and f = "\<lparr>year = 2024, month = 6, day = 1\<rparr>"
      and g = "\<lparr>year = 2024, month = 6, day = 8\<rparr>"]
  by (simp add: isoweekday_ejemplos semana_del_mes_def) blast

text \<open>
  Claim C1, as stated, fails. The claim asks that a refusal cite every cause whose flag is
  true, both causes when both flags are true. The composition appends the contingency only
  under the guard \<open>restriccion_contingencia and not restriccion_normal\<close>: for digit 5,
  sticker \<open>"1"\<close>, Phase 2, on Monday 2024-01-01 both flags are true and the reason names
  the regular programme alone.
\<close>

theorem razon_omite_contingencia_counterexample:
  "evaluar_circulacion \<lparr>year = 2024, month = 6, day = 8\<rparr> 5 ''1'' FASE_2
     (Some \<lparr>year = 2024, month = 1, day = 1\<rparr>)
   = Inr \<lparr> puede_circular = False,
           razon = ''Placa terminada en 5 con holograma 1 NO CIRCULA el lunes por: programa Hoy No Circula regular.'',
           restriccion_normal = True, restriccion_contingencia = True,
           nivel_contingencia = FASE_2, dia = ''lunes'', holograma = ''1'',
           ultimo_digito = 5 \<rparr>
   \<and> \<not> cita_contingencia FASE_2
         ''Placa terminada en 5 con holograma 1 NO CIRCULA el lunes por: programa Hoy No Circula regular.''"
proof
  show "evaluar_circulacion \<lparr>year = 2024, month = 6, day = 8\<rparr> 5 ''1'' FASE_2
     (Some \<lparr>year = 2024, month = 1, day = 1\<rparr>)
   = Inr \<lparr> puede_circular = False,
           razon = ''Placa terminada en 5 con holograma 1 NO CIRCULA el lunes por: programa Hoy No Circula regular.'',
           restriccion_normal = True, restriccion_contingencia = True,
           nivel_contingencia = FASE_2, dia = ''lunes'', holograma = ''1'',
           ultimo_digito = 5 \<rparr>"
    by (simp add: evaluar_circulacion_def Let_def isoweekday_ejemplos Holograma_of_values
        in_range_def dict_get_def NOMBRES_DIA_simps RESTRICCION_SEMANAL_simps str_int_digitos)
  show "\<not> cita_contingencia FASE_2
         ''Placa terminada en 5 con holograma 1 NO CIRCULA el lunes por: programa Hoy No Circula regular.''"
    by code_simp
qed

text \<open>
  Claim C1, amended. On every valid input the evaluation returns a result such that: a
  refusal whose base flag is true cites the regular programme; a refusal whose contingency
  flag is true and whose base flag is false cites the contingency with its level; when both
  flags are true the reason cites the regular programme and not the contingency; and when
  the vehicle may drive the reason is a no-restriction message.
\<close>

theorem razon_cita_causas:
  assumes "0 \<le> d" "d \<le> 9" "h \<in> {''00'', ''0'', ''1'', ''2''}"
  shows "\<exists>r. evaluar_circulacion hoy d h n fo = Inr r
     \<and> (\<not> puede_circular r \<and> restriccion_normal r \<longrightarrow> cita_programa_regular (razon r))
     \<and> (\<not> puede_circular r \<and> restriccion_contingencia r \<and> \<not> restriccion_normal r
          \<longrightarrow> cita_contingencia n (razon r))
     \<and> (restriccion_normal r \<and> restriccion_contingencia r
          \<longrightarrow> cita_programa_regular (razon r) \<and> \<not> cita_contingencia n (razon r))
     \<and> (puede_circular r \<longrightarrow> mensaje_sin_restriccion (razon r))"
proof -
  let ?f = "case fo of None \<Rightarrow> hoy | Some f \<Rightarrow> f"
  have dr: "in_range 0 10 d" using assms(1,2) by (simp add: in_range_def)
  consider "h \<in> {''00'', ''0''}" | "h \<in> {''1'', ''2''}" using assms(3) by auto
  then show ?thesis
  proof cases
    case 1
    then obtain he where he: "Holograma_of h = Some he" "he = CERO_CERO \<or> he = CERO"
      using holo_exento by blast
    show ?thesis
    proof (cases "n = FASE_2 \<and> d \<in> set (dict_get FASE2_RESTRICCION_HOLOGRAMA_0_00
                    (isoweekday ?f) [])")
      case True
      then have t: "n = FASE_2" "d \<in> set (dict_get FASE2_RESTRICCION_HOLOGRAMA_0_00
                    (isoweekday ?f) [])" by simp_all
      from evaluar_exento_restringe [OF he dr t]
      obtain r where r: "evaluar_circulacion hoy d h n fo = Inr r" "\<not> puede_circular r"
        "\<not> restriccion_normal r" "restriccion_contingencia r"
        "razon r = ''Holograma '' @ h
                @ '': normalmente exento, pero en CONTINGENCIA FASE 2 el '' @ dia r
                @ '' no circulan placas terminadas en '' @ str_int d @ ''.''" by blast
      have "cita_contingencia n (razon r)"
        unfolding r(5) t(1) by (rule cita_contingencia_exento)
      with r(1-4) show ?thesis by blast
    next
      case False
      from evaluar_exento_libre [OF he dr False]
      obtain r where r: "evaluar_circulacion hoy d h n fo = Inr r" "puede_circular r"
        "\<not> restriccion_normal r" "\<not> restriccion_contingencia r"
        "razon r = ''Holograma '' @ h @ '' est'' @ [CHR 0xC3, CHR 0xA1]
                @ '' exento del programa Hoy No Circula.''" by blast
      have "mensaje_sin_restriccion (razon r)"
        unfolding r(5) by (rule exento_sin_prohibicion [OF 1])
      with r(1-4) show ?thesis by blast
    qed
  next
    case 2
    then obtain he where he: "Holograma_of h = Some he" "he = UNO \<or> he = DOS"
      using holo_restringido by blast
    from evaluar_restringido_razon [OF he dr, of hoy n fo]
    obtain r where r: "evaluar_circulacion hoy d h n fo = Inr r"
      and pc: "puede_circular r = (\<not> (restriccion_normal r \<or> restriccion_contingencia r))"
      and dn: "dia r = dict_get NOMBRES_DIA (isoweekday ?f) (strftime_A ?f)"
      and rz: "razon r =
               (if restriccion_normal r then
                  ''Placa terminada en '' @ str_int d @ '' con holograma '' @ h
                    @ '' NO CIRCULA el '' @ dia r @ '' por: ''
                    @ ''programa Hoy No Circula regular'' @ ''.''
                else if restriccion_contingencia r then
                  ''Placa terminada en '' @ str_int d @ '' con holograma '' @ h
                    @ '' NO CIRCULA el '' @ dia r @ '' por: ''
                    @ (''contingencia ambiental ''
                        @ upper (replace_char (CHR ''_'') (CHR '' '') (NivelContingencia_value n)))
                    @ ''.''
                else ''Placa terminada en '' @ str_int d @ '' con holograma '' @ h
                    @ '' puede circular el '' @ dia r @ '' sin restricciones.'')"
      by blast
    from evaluar_restringido_flags [OF he dr, of hoy n fo] r
    have rc: "restriccion_contingencia r \<Longrightarrow> n \<noteq> NINGUNA"
      by (auto split: if_splits)
    have nom: "dia r \<in> set [''lunes'', ''martes'', ''mi'' @ [CHR 0xC3, CHR 0xA9] @ ''rcoles'',
            ''jueves'', ''viernes'', ''s'' @ [CHR 0xC3, CHR 0xA1] @ ''bado'', ''domingo'']"
      unfolding dn by (rule dia_nombre)
    have a: "cita_programa_regular (razon r)" if "restriccion_normal r"
    proof -
      have "razon r = (''Placa terminada en '' @ str_int d @ '' con holograma '' @ h
                    @ '' NO CIRCULA el '' @ dia r @ '' por: '')
                    @ ''programa Hoy No Circula regular'' @ ''.''"
        using rz that by simp
      then show ?thesis by (metis cita_regular_texto)
    qed
    have b: "cita_contingencia n (razon r)"
      if "restriccion_contingencia r" "\<not> restriccion_normal r"
    proof -
      have "razon r = (''Placa terminada en '' @ str_int d @ '' con holograma '' @ h
                    @ '' NO CIRCULA el '' @ dia r @ '' por: '')
                    @ (''contingencia ambiental ''
                        @ upper (replace_char (CHR ''_'') (CHR '' '') (NivelContingencia_value n)))
                    @ ''.''"
        using rz that by simp
      then show ?thesis by (metis cita_contingencia_texto)
    qed
    have c: "\<not> cita_contingencia n (razon r)"
      if "restriccion_normal r" "restriccion_contingencia r"
    proof -
      have "razon r = ''Placa terminada en '' @ str_int d @ '' con holograma '' @ h
                    @ '' NO CIRCULA el '' @ dia r @ '' por: ''
                    @ ''programa Hoy No Circula regular'' @ ''.''"
        using rz that by simp
      then show ?thesis
        using regular_no_cita [OF assms(1,2) 2 rc [OF that(2)] nom] by simp
    qed
    have e: "mensaje_sin_restriccion (razon r)" if "puede_circular r"
    proof -
      have "razon r = ''Placa terminada en '' @ str_int d @ '' con holograma '' @ h
                    @ '' puede circular el '' @ dia r @ '' sin restricciones.''"
        using rz that pc by simp
      then show ?thesis
        using libre_sin_prohibicion [OF assms(1,2) 2 nom] by simp
    qed
    from r a b c e show ?thesis by blast
  qed
qed

theorem razon_cita_causas_witness:
  "\<exists>r. evaluar_circulacion \<lparr>year = 2024, month = 6, day = 8\<rparr> 4 ''1'' FASE_2
         (Some \<lparr>year = 2024, month = 1, day = 1\<rparr>) = Inr r
       \<and> \<not> puede_circular r \<and> restriccion_contingencia r \<and> \<not> restriccion_normal r
       \<and> cita_contingencia FASE_2 (razon r)"
proof -
  from razon_cita_causas [where d = 4 and h = "''1''" and n = FASE_2
      and hoy = "\<lparr>year = 2024, month = 6, day = 8\<rparr>"
      and fo = "Some \<lparr>year = 2024, month = 1, day = 1\<rparr>"]
  obtain r where r: "evaluar_circulacion \<lparr>year = 2024, month = 6, day = 8\<rparr> 4 ''1'' FASE_2
         (Some \<lparr>year = 2024, month = 1, day = 1\<rparr>) = Inr r"
    and c: "\<not> puede_circular r \<and> restriccion_contingencia r \<and> \<not> restriccion_normal r
          \<longrightarrow> cita_contingencia FASE_2 (razon r)"
    by auto
  have "in_range 0 10 4" by (simp add: in_range_def)
  from evaluar_restringido_flags [OF Holograma_of_values(3) _ this,
      of "\<lparr>year = 2024, month = 6, day = 8\<rparr>" FASE_2
         "Some \<lparr>year = 2024, month = 1, day = 1\<rparr>"] r
  have "\<not> puede_circular r \<and> restriccion_contingencia r \<and> \<not> restriccion_normal r"
    by (auto simp: isoweekday_ejemplos RESTRICCION_SEMANAL_simps in_range_def)
  with r c show ?thesis by blast
qed

end
